theory Spec2Isabelle
  imports Complex_Main "HOL-Library.Monad_Syntax"
begin

section \<open>Strings and characters\<close>

text \<open>
  A JavaScript string is modelled as a \<^typ>\<open>string\<close>, one \<^typ>\<open>char\<close> per code unit,
  with the code units restricted to the range 0..255 (ASCII and Latin-1). A character is
  read through its code, \<open>of_char c\<close>.
\<close>

definition code :: "char \<Rightarrow> nat" where
  "code c = of_char c"

text \<open>The class \<open>\d\<close> of a regular expression: the ten ASCII digits.\<close>

definition isDigit :: "char \<Rightarrow> bool" where
  "isDigit c = (48 \<le> code c \<and> code c \<le> 57)"

text \<open>\<open>s[i]\<close>: the character at an index, \<open>undefined\<close> (here \<open>None\<close>) out of range.\<close>

definition charAt :: "string \<Rightarrow> int \<Rightarrow> char option" where
  "charAt s i = (if 0 \<le> i \<and> i < int (length s) then Some (s ! nat i) else None)"

text \<open>
  \<open>parseInt(s[i], 10)\<close> on a single character: the digit's value, and \<open>NaN\<close>
  (here \<open>None\<close>) for \<open>undefined\<close> and for any other character.
\<close>

definition parseIntChar :: "char option \<Rightarrow> nat option" where
  "parseIntChar x =
     (case x of
        None \<Rightarrow> None
      | Some c \<Rightarrow> if isDigit c then Some (code c - 48) else None)"

text \<open>\<open>s.padStart(n, c)\<close> for a one-character pad string.\<close>

definition padStart :: "string \<Rightarrow> nat \<Rightarrow> char \<Rightarrow> string" where
  "padStart s n c = replicate (n - length s) c @ s"

section \<open>UPC/EAN utilities (utils/upc)\<close>

datatype UPCType = UPC_A | EAN_13 | EAN_8 | invalid

record UPCDetails =
  type :: UPCType
  normalized :: string
  isValid :: bool

text \<open>
  The weight the loop of \<open>validateChecksum\<close> gives index \<open>i\<close>:
  \<open>(length === 8 && i % 2 === 0) ? 3 : (i % 2 === 0 ? 1 : 3)\<close>.
\<close>

definition weight :: "nat \<Rightarrow> nat \<Rightarrow> nat" where
  "weight len i =
     (if len = 8 \<and> i mod 2 = 0 then 3 else (if i mod 2 = 0 then 1 else 3))"

text \<open>
  One round of the loop, \<open>sum += digit * weight\<close> (the running sum is \<open>acc\<close>).
  A \<open>NaN\<close> digit makes the sum \<open>NaN\<close> for good.
\<close>

definition addDigit :: "string \<Rightarrow> nat \<Rightarrow> nat \<Rightarrow> nat option \<Rightarrow> nat option" where
  "addDigit cd len i acc =
     (case (acc, parseIntChar (charAt cd (int i))) of
        (Some s, Some digit) \<Rightarrow> Some (s + digit * weight len i)
      | _ \<Rightarrow> None)"

text \<open>
  \<open>validateChecksum(code, length)\<close>. The comparison \<open>checkDigit === calculatedCheck\<close>
  is false as soon as one side is \<open>NaN\<close>.
\<close>

definition validateChecksum :: "string \<Rightarrow> nat \<Rightarrow> bool" where
  "validateChecksum cd len =
     (if length cd \<noteq> len then False
      else
        let total = fold (addDigit cd len) [0 ..< len - 1] (Some 0);
            checkDigit = parseIntChar (charAt cd (int len - 1))
        in (case (checkDigit, total) of
              (Some c, Some s) \<Rightarrow> c = (10 - s mod 10) mod 10
            | _ \<Rightarrow> False))"

text \<open>\<open>normalizeUPC(input)\<close>; \<open>cleaned\<close> is the input without its non-digits.\<close>

definition normalizeUPC :: "string \<Rightarrow> UPCDetails" where
  "normalizeUPC input =
     (let cleaned = filter isDigit input in
      if length cleaned = 8 then
        \<lparr>type = EAN_8, normalized = padStart cleaned 8 (CHR ''0''),
         isValid = validateChecksum cleaned 8\<rparr>
      else if length cleaned = 12 then
        \<lparr>type = UPC_A, normalized = padStart cleaned 12 (CHR ''0''),
         isValid = validateChecksum cleaned 12\<rparr>
      else if length cleaned = 13 then
        \<lparr>type = EAN_13, normalized = padStart cleaned 13 (CHR ''0''),
         isValid = validateChecksum cleaned 13\<rparr>
      else
        \<lparr>type = invalid, normalized = cleaned, isValid = False\<rparr>)"

text \<open>\<open>areUPCEquivalent(upc1, upc2)\<close>; \<open>substring(0, n)\<close> is \<open>take n\<close>.\<close>

definition areUPCEquivalent :: "string \<Rightarrow> string \<Rightarrow> bool" where
  "areUPCEquivalent upc1 upc2 =
     (let norm1 = normalizeUPC upc1; norm2 = normalizeUPC upc2 in
      if \<not> isValid norm1 \<or> \<not> isValid norm2 then False
      else if type norm1 = UPC_A \<and> type norm2 = UPC_A then
        take 11 (normalized norm1) = take 11 (normalized norm2)
      else if type norm1 = EAN_13 \<and> type norm2 = EAN_13 then
        take 12 (normalized norm1) = take 12 (normalized norm2)
      else False)"

section \<open>Lot code and expiration date parsing (parsers/lot)\<close>

subsection \<open>Character classes and case mapping\<close>

text \<open>
  White space, for \<open>trim()\<close> and for the class \<open>\s\<close>: tab, line feed, vertical tab,
  form feed, carriage return, space and no-break space (the members below 256).
\<close>

definition isSpace :: "char \<Rightarrow> bool" where
  "isSpace c = (code c \<in> {9, 10, 11, 12, 13, 32, 160})"

definition isUpper :: "char \<Rightarrow> bool" where
  "isUpper c = (65 \<le> code c \<and> code c \<le> 90)"

definition isLower :: "char \<Rightarrow> bool" where
  "isLower c = (97 \<le> code c \<and> code c \<le> 122)"

text \<open>The class \<open>\w\<close>: ASCII letters, digits and the underscore.\<close>

definition isWord :: "char \<Rightarrow> bool" where
  "isWord c = (isUpper c \<or> isLower c \<or> isDigit c \<or> code c = 95)"

text \<open>
  \<open>toLowerCase()\<close> on one character: the ASCII capitals and the Latin-1 capitals
  (192 to 222 without the multiplication sign 215) move up by 32.
\<close>

definition lowerChar :: "char \<Rightarrow> char" where
  "lowerChar c =
     (if isUpper c \<or> (192 \<le> code c \<and> code c \<le> 222 \<and> code c \<noteq> 215)
      then char_of (code c + 32) else c)"

definition toLowerCase :: "string \<Rightarrow> string" where
  "toLowerCase s = map lowerChar s"

text \<open>
  \<open>toUpperCase()\<close>: the ASCII and Latin-1 small letters (224 to 254 without the
  division sign 247) move down by 32, and the sharp s (223) becomes \<open>SS\<close>. The
  capitals of the micro sign (181) and of y with diaeresis (255) lie outside Latin-1;
  both characters are left as they are, which no class of the patterns below tells
  apart from their capitals.
\<close>

definition upperChar :: "char \<Rightarrow> string" where
  "upperChar c =
     (if isLower c \<or> (224 \<le> code c \<and> code c \<le> 254 \<and> code c \<noteq> 247)
      then [char_of (code c - 32)]
      else if code c = 223 then ''SS'' else [c])"

definition toUpperCase :: "string \<Rightarrow> string" where
  "toUpperCase s = concat (map upperChar s)"

definition trim :: "string \<Rightarrow> string" where
  "trim s = rev (dropWhile isSpace (rev (dropWhile isSpace s)))"

subsection \<open>The regular expressions of the two pattern tables\<close>

text \<open>
  The patterns of \<open>LOT_PATTERNS\<close> and \<open>EXPIRY_PATTERNS\<close> are anchored at both ends
  and built from three forms only: a character class under a greedy quantifier
  (\<open>Rep cls lo hi\<close>, with \<open>hi = None\<close> for no upper bound), an optional non-capturing
  group \<open>(?:...)?\<close> and a capturing group \<open>(...)\<close>, the groups holding quantified
  classes. They are matched as JavaScript does, by backtracking: the matcher lists every
  way to match in the order the engine tries them, and the first one that reaches the
  end of the input is the match.
\<close>

datatype atom = Rep "char \<Rightarrow> bool" nat "nat option"

datatype item = Plain atom | Optional "atom list" | Capture "atom list"

type_synonym pattern = "item list"

text \<open>The remainders after a quantified class, longest match first.\<close>

fun matchAtom :: "atom \<Rightarrow> string \<Rightarrow> string list" where
  "matchAtom (Rep cls lo hi) s =
     (let avail = length (takeWhile cls s);
          most = (case hi of None \<Rightarrow> avail | Some h \<Rightarrow> min h avail)
      in map (\<lambda>k. drop k s) (rev [lo ..< Suc most]))"

fun matchAtoms :: "atom list \<Rightarrow> string \<Rightarrow> string list" where
  "matchAtoms [] s = [s]"
| "matchAtoms (a # as) s = concat (map (matchAtoms as) (matchAtom a s))"

text \<open>
  A matcher state is the rest of the input and the captures so far. A group captures
  the text its atoms consumed.
\<close>

fun matchItem :: "item \<Rightarrow> string \<times> string list \<Rightarrow> (string \<times> string list) list" where
  "matchItem (Plain a) (s, caps) = map (\<lambda>r. (r, caps)) (matchAtom a s)"
| "matchItem (Optional as) (s, caps) = map (\<lambda>r. (r, caps)) (matchAtoms as s) @ [(s, caps)]"
| "matchItem (Capture as) (s, caps) =
     map (\<lambda>r. (r, caps @ [take (length s - length r) s])) (matchAtoms as s)"

fun matchItems :: "pattern \<Rightarrow> string \<times> string list \<Rightarrow> (string \<times> string list) list" where
  "matchItems [] st = [st]"
| "matchItems (i # is) st = concat (map (matchItems is) (matchItem i st))"

text \<open>
  \<open>s.match(pattern)\<close> for an anchored pattern without the \<open>g\<close> flag: the captured
  groups of the match (the whole match, index 0 of the result, is left out), or
  \<open>None\<close> for \<open>null\<close>.
\<close>

definition match :: "string \<Rightarrow> pattern \<Rightarrow> string list option" where
  "match s p = map_option snd (find (\<lambda>st. fst st = []) (matchItems p (s, [])))"

text \<open>The number of capturing groups of a pattern.\<close>

fun captureCount :: "pattern \<Rightarrow> nat" where
  "captureCount [] = 0"
| "captureCount (Capture as # is) = Suc (captureCount is)"
| "captureCount (i # is) = captureCount is"

text \<open>Classes and literals. Under the \<open>i\<close> flag a letter matches in both cases.\<close>

definition once :: "(char \<Rightarrow> bool) \<Rightarrow> atom" where
  "once cls = Rep cls 1 (Some 1)"

definition letterI :: "char \<Rightarrow> char \<Rightarrow> bool" where
  "letterI l c = (upperChar c = upperChar l)"

definition literalI :: "string \<Rightarrow> atom list" where
  "literalI w = map (\<lambda>l. once (letterI l)) w"

text \<open>The classes \<open>[A-Z]\<close> and \<open>[A-Z0-9]\<close> under the \<open>i\<close> flag.\<close>

definition isLetterI :: "char \<Rightarrow> bool" where
  "isLetterI c = (isUpper c \<or> isLower c)"

definition isAlnumI :: "char \<Rightarrow> bool" where
  "isAlnumI c = (isUpper c \<or> isLower c \<or> isDigit c)"

text \<open>
  A class that lists some characters and \<open>\s\<close>, such as \<open>[:\s]\<close> and
  \<open>[\/\-\s]\<close>; and \<open>\d\<close> under a quantifier.
\<close>

definition oneOf :: "string \<Rightarrow> char \<Rightarrow> bool" where
  "oneOf cs c = (c \<in> set cs \<or> isSpace c)"

definition digits :: "nat \<Rightarrow> nat option \<Rightarrow> atom" where
  "digits lo hi = Rep isDigit lo hi"

text \<open>\<open>LOT_PATTERNS\<close>, all under the \<open>i\<close> flag.\<close>

definition LOT_PATTERNS :: "pattern list" where
  \<open>LOT_PATTERNS =
     [ \<comment> \<open>\<open>/^(L?)(\d{4,6})([A-Z]?)$/i\<close>\<close>
       [Capture [Rep (letterI (CHR ''L'')) 0 (Some 1)], Capture [digits 4 (Some 6)],
        Capture [Rep isLetterI 0 (Some 1)]],
       \<comment> \<open>\<open>/^lot[:\s]*([A-Z]?\d{4,})$/i\<close>\<close>
       map Plain (literalI ''lot'') @ [Plain (Rep (oneOf '':'') 0 None),
        Capture [Rep isLetterI 0 (Some 1), digits 4 None]],
       \<comment> \<open>\<open>/^batch[:\s]*([A-Z]?\d{4,})$/i\<close>\<close>
       map Plain (literalI ''batch'') @ [Plain (Rep (oneOf '':'') 0 None),
        Capture [Rep isLetterI 0 (Some 1), digits 4 None]],
       \<comment> \<open>\<open>/^serial[:\s]*([A-Z]?\d{4,})$/i\<close>\<close>
       map Plain (literalI ''serial'') @ [Plain (Rep (oneOf '':'') 0 None),
        Capture [Rep isLetterI 0 (Some 1), digits 4 None]],
       \<comment> \<open>\<open>/^model[:\s]*([A-Z0-9]+)$/i\<close>\<close>
       map Plain (literalI ''model'') @ [Plain (Rep (oneOf '':'') 0 None),
        Capture [Rep isAlnumI 1 None]] ]\<close>

text \<open>
  The tail shared by the labelled expiry patterns,
  \<open>(\d{1,2})[\/\-\s](\d{1,2})[\/\-\s](\d{2,4})\<close>.
\<close>

definition labelledDate :: "pattern" where
  "labelledDate =
     [Capture [digits 1 (Some 2)], Plain (once (oneOf ''/-'')),
      Capture [digits 1 (Some 2)], Plain (once (oneOf ''/-'')),
      Capture [digits 2 (Some 4)]]"

definition EXPIRY_PATTERNS :: "pattern list" where
  \<open>EXPIRY_PATTERNS =
     [ \<comment> \<open>\<open>/^(\d{1,2})[\/\-\s](\d{1,2})[\/\-\s](\d{4})$/\<close>\<close>
       [Capture [digits 1 (Some 2)], Plain (once (oneOf ''/-'')),
        Capture [digits 1 (Some 2)], Plain (once (oneOf ''/-'')),
        Capture [digits 4 (Some 4)]],
       \<comment> \<open>\<open>/^(\d{1,2})[\/\-](\d{1,2})[\/\-](\d{2})$/\<close>\<close>
       [Capture [digits 1 (Some 2)], Plain (once (\<lambda>c. c \<in> set ''/-'')),
        Capture [digits 1 (Some 2)], Plain (once (\<lambda>c. c \<in> set ''/-'')),
        Capture [digits 2 (Some 2)]],
       \<comment> \<open>\<open>/^(\d{4})-(\d{1,2})-(\d{1,2})$/\<close>\<close>
       [Capture [digits 4 (Some 4)], Plain (once (\<lambda>c. c = CHR ''-'')),
        Capture [digits 1 (Some 2)], Plain (once (\<lambda>c. c = CHR ''-'')),
        Capture [digits 1 (Some 2)]],
       \<comment> \<open>\<open>/^best\s(?:if\s)?(?:used\s)?by\s\<close> and the labelled date, \<open>/i\<close>\<close>
       map Plain (literalI ''best'') @ [Plain (once isSpace),
        Optional (literalI ''if'' @ [once isSpace]),
        Optional (literalI ''used'' @ [once isSpace])] @
        map Plain (literalI ''by'') @ [Plain (once isSpace)] @ labelledDate,
       \<comment> \<open>\<open>/^exp[.:\s]*\<close> and the labelled date, \<open>/i\<close>\<close>
       map Plain (literalI ''exp'') @ [Plain (Rep (oneOf ''.:'') 0 None)] @ labelledDate,
       \<comment> \<open>\<open>/^use\sby[:\s]*\<close> and the labelled date, \<open>/i\<close>\<close>
       map Plain (literalI ''use'') @ [Plain (once isSpace)] @ map Plain (literalI ''by'') @
        [Plain (Rep (oneOf '':'') 0 None)] @ labelledDate,
       \<comment> \<open>\<open>/^sell\sby[:\s]*\<close> and the labelled date, \<open>/i\<close>\<close>
       map Plain (literalI ''sell'') @ [Plain (once isSpace)] @ map Plain (literalI ''by'') @
        [Plain (Rep (oneOf '':'') 0 None)] @ labelledDate ]\<close>

subsection \<open>Numbers and their text\<close>

definition decimal :: "string \<Rightarrow> nat" where
  "decimal ds = foldl (\<lambda>a c. 10 * a + (code c - 48)) 0 ds"

text \<open>
  \<open>parseInt(s, 10)\<close>: leading white space and a sign are skipped, the digits that
  follow are read, and the result is \<open>NaN\<close> (here \<open>None\<close>) when there are none.
\<close>

definition parseInt :: "string \<Rightarrow> int option" where
  "parseInt s =
     (let t = dropWhile isSpace s;
          neg = (t \<noteq> [] \<and> hd t = CHR ''-'');
          u = (if t \<noteq> [] \<and> hd t \<in> set ''+-'' then tl t else t);
          ds = takeWhile isDigit u
      in if ds = [] then None
         else Some (if neg then - int (decimal ds) else int (decimal ds)))"

fun natToString :: "nat \<Rightarrow> string" where
  "natToString n =
     (if n < 10 then [''0123456789'' ! n]
      else natToString (n div 10) @ [''0123456789'' ! (n mod 10)])"

declare natToString.simps [simp del]

text \<open>A number inside a template literal.\<close>

definition numberToString :: "int option \<Rightarrow> string" where
  "numberToString x =
     (case x of
        None \<Rightarrow> ''NaN''
      | Some n \<Rightarrow> if n < 0 then CHR ''-'' # natToString (nat (- n)) else natToString (nat n))"

text \<open>\<open>x < k\<close> and \<open>x > k\<close> for a number that may be \<open>NaN\<close>: false on \<open>NaN\<close>.\<close>

definition numLess :: "int option \<Rightarrow> int \<Rightarrow> bool" where
  "numLess x k = (case x of None \<Rightarrow> False | Some n \<Rightarrow> n < k)"

definition numGreater :: "int option \<Rightarrow> int \<Rightarrow> bool" where
  "numGreater x k = (case x of None \<Rightarrow> False | Some n \<Rightarrow> n > k)"

subsection \<open>parseLotCode\<close>

record LotComponents =
  prefix :: "string option"
  date :: "string option"
  suffix :: "string option"

record ParsedLot =
  raw :: string
  normalized :: string
  components :: LotComponents

text \<open>\<open>xs[i]\<close> of an array, \<open>undefined\<close> (here \<open>None\<close>) out of range.\<close>

definition elemAt :: "'a list \<Rightarrow> nat \<Rightarrow> 'a option" where
  "elemAt xs i = (if i < length xs then Some (xs ! i) else None)"

text \<open>\<open>x || undefined\<close> on a string that may be \<open>undefined\<close>.\<close>

definition orUndefined :: "string option \<Rightarrow> string option" where
  "orUndefined x = (case x of None \<Rightarrow> None | Some s \<Rightarrow> if s = [] then None else Some s)"

text \<open>A string that may be \<open>undefined\<close> inside a template literal.\<close>

definition interpolate :: "string option \<Rightarrow> string" where
  "interpolate x = (case x of None \<Rightarrow> ''undefined'' | Some s \<Rightarrow> s)"

text \<open>
  The loop of \<open>parseLotCode\<close> over the patterns. The destructuring
  \<open>[, prefix = '', date, suffix = '']\<close> reads the groups 1 to 3, with the defaults for
  the first and third.
\<close>

fun lotLoop :: "string \<Rightarrow> string \<Rightarrow> pattern list \<Rightarrow> ParsedLot option" where
  "lotLoop text cleaned [] = None"
| "lotLoop text cleaned (p # ps) =
     (case match cleaned p of
        None \<Rightarrow> lotLoop text cleaned ps
      | Some groups \<Rightarrow>
          let prefix = (case elemAt groups 0 of None \<Rightarrow> [] | Some g \<Rightarrow> g);
              date = elemAt groups 1;
              suffix = (case elemAt groups 2 of None \<Rightarrow> [] | Some g \<Rightarrow> g)
          in Some \<lparr>raw = trim text,
                   normalized = prefix @ interpolate date @ suffix,
                   components = \<lparr>prefix = orUndefined (Some prefix),
                                 date = orUndefined date,
                                 suffix = orUndefined (Some suffix)\<rparr>\<rparr>)"

definition parseLotCode :: "string \<Rightarrow> ParsedLot option" where
  "parseLotCode text = lotLoop text (toUpperCase (trim text)) LOT_PATTERNS"


subsection \<open>parseExpiryDate\<close>

text \<open>
  What the source can raise: a \<open>TypeError\<close> on reading a property of
  \<open>undefined\<close>, and the \<open>SyntaxError\<close> of \<open>new RegExp\<close> on a malformed pattern.
\<close>

datatype error = TypeError | SyntaxError

record ParsedExpiry =
  raw :: string
  normalized :: string
  confidence :: real

text \<open>
  \<open>new Date(s)\<close> on a string is the host's date parser and not code of this
  program. It is a parameter of the model: \<open>parseDate s\<close> is the time value of
  \<open>new Date(s)\<close> in milliseconds, and \<open>None\<close> when the date is invalid
  (\<open>isNaN(date.getTime())\<close>).
\<close>

type_synonym dateParser = "string \<Rightarrow> int option"

text \<open>
  The loop of \<open>parseExpiryDate\<close> over the patterns. The destructuring
  \<open>[, month, day, year]\<close> reads the groups 1 to 3 in this order, whatever the pattern;
  \<open>year.length\<close> on a missing group is a \<open>TypeError\<close>. \<open>continue\<close> goes on with the
  remaining patterns.
\<close>

fun expiryLoop ::
  "dateParser \<Rightarrow> string \<Rightarrow> string \<Rightarrow> pattern list \<Rightarrow> error + ParsedExpiry option" where
  "expiryLoop parseDate text cleaned [] = Inr None"
| "expiryLoop parseDate text cleaned (p # ps) =
     (case match cleaned p of
        None \<Rightarrow> expiryLoop parseDate text cleaned ps
      | Some groups \<Rightarrow>
          (case (elemAt groups 0, elemAt groups 1, elemAt groups 2) of
             (Some month, Some day, Some year) \<Rightarrow>
               let fullYear =
                     (if length year = 2 then
                        (case parseInt year of
                           None \<Rightarrow> None
                         | Some y \<Rightarrow> if y < 50 then Some (2000 + y) else Some (1900 + y))
                      else parseInt year);
                   monthNum = parseInt month;
                   dayNum = parseInt day
               in if numLess monthNum 1 \<or> numGreater monthNum 12 \<or>
                     numLess dayNum 1 \<or> numGreater dayNum 31
                  then expiryLoop parseDate text cleaned ps
                  else
                    let isoDate = numberToString fullYear @ ''-'' @
                          padStart month 2 (CHR ''0'') @ ''-'' @ padStart day 2 (CHR ''0'')
                    in if parseDate isoDate = None
                       then expiryLoop parseDate text cleaned ps
                       else Inr (Some \<lparr>raw = trim text, normalized = isoDate,
                                        confidence = 0.9\<rparr>)
           | _ \<Rightarrow> Inl TypeError))"

definition parseExpiryDate :: "dateParser \<Rightarrow> string \<Rightarrow> error + ParsedExpiry option" where
  "parseExpiryDate parseDate text = expiryLoop parseDate text (trim text) EXPIRY_PATTERNS"

subsection \<open>matchesLotPattern and isDateInRange\<close>

text \<open>
  \<open>new RegExp(pattern, 'i')\<close> compiles a pattern that is data of a recall record, in
  the host's full regular-expression language. It is a parameter of the model:
  \<open>newRegExp pattern\<close> is \<open>None\<close> when the constructor raises its \<open>SyntaxError\<close>,
  and else the function \<open>lot \<mapsto> regex.test(lot)\<close> of the compiled expression.
\<close>

type_synonym regExpConstructor = "string \<Rightarrow> (string \<Rightarrow> bool) option"

text \<open>The body of the \<open>try\<close> block.\<close>

definition regexTest :: "regExpConstructor \<Rightarrow> string \<Rightarrow> string \<Rightarrow> error + bool" where
  "regexTest newRegExp lot pattern =
     (case newRegExp pattern of
        None \<Rightarrow> Inl SyntaxError
      | Some regex \<Rightarrow> Inr (regex lot))"

text \<open>\<open>matchesLotPattern(lot, pattern)\<close>: the \<open>catch\<close> turns every error into false.\<close>

definition matchesLotPattern :: "regExpConstructor \<Rightarrow> string \<Rightarrow> string \<Rightarrow> bool" where
  "matchesLotPattern newRegExp lot pattern =
     (case regexTest newRegExp lot pattern of
        Inl e \<Rightarrow> False
      | Inr b \<Rightarrow> b)"

text \<open>
  The truth value of an optional string in a condition: \<open>undefined\<close> and the empty
  string are false.
\<close>

definition truthy :: "string option \<Rightarrow> bool" where
  "truthy x = (case x of None \<Rightarrow> False | Some s \<Rightarrow> s \<noteq> [])"

text \<open>
  The two bound checks of \<open>isDateInRange\<close>: the bound is present and is either no
  date or on the wrong side of the target, so that the function returns false.
\<close>

definition startFails :: "dateParser \<Rightarrow> int \<Rightarrow> string option \<Rightarrow> bool" where
  "startFails parseDate targetDate start =
     (case start of
        None \<Rightarrow> False
      | Some s \<Rightarrow>
          if s = [] then False
          else (case parseDate s of None \<Rightarrow> True | Some startDate \<Rightarrow> targetDate < startDate))"

definition endFails :: "dateParser \<Rightarrow> int \<Rightarrow> string option \<Rightarrow> bool" where
  "endFails parseDate targetDate end' =
     (case end' of
        None \<Rightarrow> False
      | Some e \<Rightarrow>
          if e = [] then False
          else (case parseDate e of None \<Rightarrow> True | Some endDate \<Rightarrow> targetDate > endDate))"

definition isDateInRange ::
  "dateParser \<Rightarrow> string \<Rightarrow> string option \<Rightarrow> string option \<Rightarrow> bool" where
  "isDateInRange parseDate date' start end' =
     (case parseDate date' of
        None \<Rightarrow> False
      | Some targetDate \<Rightarrow>
          if startFails parseDate targetDate start then False
          else if endFails parseDate targetDate end' then False
          else True)"


section \<open>Text matching for brand and product names (matching/text)\<close>

subsection \<open>normalizeText\<close>

text \<open>\<open>replace(/[^\w\s]/g, ' ')\<close>\<close>

definition replacePunctuation :: "string \<Rightarrow> string" where
  "replacePunctuation s = map (\<lambda>c. if isWord c \<or> isSpace c then c else CHR '' '') s"

text \<open>
  \<open>replace(/\s+/g, ' ')\<close>: every maximal run of white space becomes one space;
  \<open>inRun\<close> says that the character before belonged to a run.
\<close>

fun collapseFrom :: "bool \<Rightarrow> string \<Rightarrow> string" where
  "collapseFrom inRun [] = []"
| "collapseFrom inRun (c # cs) =
     (if isSpace c then
        (if inRun then collapseFrom True cs else CHR '' '' # collapseFrom True cs)
      else c # collapseFrom False cs)"

definition collapseSpaces :: "string \<Rightarrow> string" where
  "collapseSpaces s = collapseFrom False s"

text \<open>The alternatives of the stop-word expression, in its order.\<close>

definition STOP_WORDS :: "string list" where
  "STOP_WORDS = [''the'', ''a'', ''an'', ''and'', ''or'', ''but'', ''in'', ''on'', ''at'',
                 ''to'', ''for'', ''of'', ''with'', ''by'']"

text \<open>
  The assertion \<open>\b\<close> between two neighbours, of which one may be missing (the start
  or the end of the text): exactly one of them is a word character.
\<close>

definition wordBoundary :: "char option \<Rightarrow> char option \<Rightarrow> bool" where
  "wordBoundary prev next =
     ((case prev of None \<Rightarrow> False | Some c \<Rightarrow> isWord c) \<noteq>
      (case next of None \<Rightarrow> False | Some c \<Rightarrow> isWord c))"

text \<open>
  One attempt of \<open>/\b(the|a|...|by)\b/\<close> at the head of \<open>s\<close>, with the character
  in front of it: the first alternative that is a prefix of \<open>s\<close> and ends at a boundary.
\<close>

definition matchStopWord :: "char option \<Rightarrow> string \<Rightarrow> string option" where
  "matchStopWord prev s =
     (if wordBoundary prev (elemAt s 0) then
        find (\<lambda>w. take (length w) s = w \<and>
                  wordBoundary (elemAt s (length w - 1)) (elemAt s (length w))) STOP_WORDS
      else None)"

text \<open>
  The global replacement by the empty string, from left to right: \<open>skip\<close> counts
  the characters of a match that are still to be dropped, and after a match the search
  goes on behind it.
\<close>

fun stripStopWords :: "nat \<Rightarrow> char option \<Rightarrow> string \<Rightarrow> string" where
  "stripStopWords skip prev [] = []"
| "stripStopWords (Suc skip) prev (c # cs) = stripStopWords skip (Some c) cs"
| "stripStopWords 0 prev (c # cs) =
     (case matchStopWord prev (c # cs) of
        Some w \<Rightarrow> stripStopWords (length w - 1) (Some c) cs
      | None \<Rightarrow> c # stripStopWords 0 (Some c) cs)"

definition normalizeText :: "string \<Rightarrow> string" where
  "normalizeText text =
     trim (stripStopWords 0 None (collapseSpaces (replacePunctuation (trim (toLowerCase text)))))"

subsection \<open>jaroWinklerSimilarity\<close>

text \<open>
  The inner loop of the matching phase: the first \<open>j\<close> of the window that is not yet
  matched and carries the same character.
\<close>

definition findMatch :: "string \<Rightarrow> string \<Rightarrow> bool list \<Rightarrow> nat \<Rightarrow> nat \<Rightarrow> nat \<Rightarrow> nat option" where
  "findMatch s1Norm s2Norm s2Matches i start end' =
     find (\<lambda>j. \<not> (s2Matches ! j \<or> s1Norm ! i \<noteq> s2Norm ! j)) [start ..< end']"

text \<open>
  One round of the outer loop on the state \<open>(s1Matches, s2Matches, matches)\<close>.
\<close>

definition matchStep ::
  "string \<Rightarrow> string \<Rightarrow> int \<Rightarrow> nat \<Rightarrow> bool list \<times> bool list \<times> nat \<Rightarrow> bool list \<times> bool list \<times> nat" where
  "matchStep s1Norm s2Norm matchWindow i st =
     (case st of (s1Matches, s2Matches, matches) \<Rightarrow>
        let start = nat (max 0 (int i - matchWindow));
            end' = nat (min (int i + matchWindow + 1) (int (length s2Norm)))
        in (case findMatch s1Norm s2Norm s2Matches i start end' of
              None \<Rightarrow> (s1Matches, s2Matches, matches)
            | Some j \<Rightarrow> (s1Matches[i := True], s2Matches[j := True], matches + 1)))"

text \<open>
  \<open>while (!s2Matches[k]) k++\<close>. Beyond the end of the array \<open>s2Matches[k]\<close> is
  \<open>undefined\<close>, its negation is true and the loop never ends: the result \<open>None\<close>.
\<close>

function skipUnmatched :: "bool list \<Rightarrow> nat \<Rightarrow> nat option" where
  "skipUnmatched s2Matches k =
     (if k < length s2Matches then
        (if s2Matches ! k then Some k else skipUnmatched s2Matches (Suc k))
      else None)"
  by pat_completeness auto
termination
  by (relation "measure (\<lambda>(s2Matches, k). length s2Matches - k)") auto

declare skipUnmatched.simps [simp del]

text \<open>
  The loop that counts transpositions, over the indices \<open>i\<close> of \<open>s1Norm\<close> still to
  visit, with the counters \<open>k\<close> and \<open>transpositions\<close>.
\<close>

fun countTranspositions ::
  "string \<Rightarrow> string \<Rightarrow> bool list \<Rightarrow> bool list \<Rightarrow> nat list \<Rightarrow> nat \<Rightarrow> nat \<Rightarrow> nat option" where
  "countTranspositions s1Norm s2Norm s1Matches s2Matches [] k transpositions =
     Some transpositions"
| "countTranspositions s1Norm s2Norm s1Matches s2Matches (i # is) k transpositions =
     (if \<not> s1Matches ! i then
        countTranspositions s1Norm s2Norm s1Matches s2Matches is k transpositions
      else
        (case skipUnmatched s2Matches k of
           None \<Rightarrow> None
         | Some k' \<Rightarrow>
             countTranspositions s1Norm s2Norm s1Matches s2Matches is (Suc k')
               (if s1Norm ! i \<noteq> s2Norm ! k' then transpositions + 1 else transpositions)))"

text \<open>The Winkler prefix: the common prefix within the first four characters.\<close>

definition commonPrefix :: "string \<Rightarrow> string \<Rightarrow> nat" where
  "commonPrefix s1Norm s2Norm =
     length (takeWhile (\<lambda>(a, b). a = b) (take 4 (zip s1Norm s2Norm)))"

text \<open>
  \<open>jaroWinklerSimilarity(s1, s2)\<close>. Numbers are real numbers here: the rounding of
  the floating-point operations is not modelled. The result is \<open>None\<close> when the
  \<open>while\<close> loop does not end.
\<close>

definition jaroWinklerSimilarity :: "string \<Rightarrow> string \<Rightarrow> real option" where
  "jaroWinklerSimilarity s1 s2 =
     (let s1Norm = normalizeText s1; s2Norm = normalizeText s2 in
      if s1Norm = s2Norm then Some 1.0
      else if length s1Norm = 0 \<or> length s2Norm = 0 then Some 0.0
      else
        let matchWindow = int (max (length s1Norm) (length s2Norm) div 2) - 1 in
        if matchWindow < 0 then Some 0.0
        else
          (case fold (matchStep s1Norm s2Norm matchWindow) [0 ..< length s1Norm]
                  (replicate (length s1Norm) False, replicate (length s2Norm) False, 0) of
             (s1Matches, s2Matches, matches) \<Rightarrow>
               if matches = 0 then Some 0.0
               else
                 (case countTranspositions s1Norm s2Norm s1Matches s2Matches
                         [0 ..< length s1Norm] 0 0 of
                    None \<Rightarrow> None
                  | Some transpositions \<Rightarrow>
                      let jaro = (real matches / real (length s1Norm) +
                                  real matches / real (length s2Norm) +
                                  (real matches - real transpositions / 2) / real matches) / 3;
                          prefix = commonPrefix s1Norm s2Norm
                      in Some (jaro + (0.1 * real prefix * (1 - jaro))))))"

subsection \<open>cosineSimilarity\<close>

text \<open>
  A \<open>Map\<close> from n-grams to counts, as the list of its entries in insertion order.
\<close>

definition mapGet :: "(string \<times> nat) list \<Rightarrow> string \<Rightarrow> nat" where
  "mapGet m key = (case map_of m key of None \<Rightarrow> 0 | Some v \<Rightarrow> v)"

fun mapSet :: "(string \<times> nat) list \<Rightarrow> string \<Rightarrow> nat \<Rightarrow> (string \<times> nat) list" where
  "mapSet [] key v = [(key, v)]"
| "mapSet ((k, w) # m) key v = (if k = key then (k, v) # m else (k, w) # mapSet m key v)"

definition getNGrams :: "string \<Rightarrow> nat \<Rightarrow> (string \<times> nat) list" where
  "getNGrams text n =
     fold (\<lambda>i ngrams. let ngram = take n (drop i text)
                       in mapSet ngrams ngram (mapGet ngrams ngram + 1))
       [0 ..< Suc (length text) - n] []"

text \<open>\<open>new Set([...])\<close>: the elements without repetition, in order of first occurrence.\<close>

definition newSet :: "string list \<Rightarrow> string list" where
  "newSet xs = fold (\<lambda>x acc. if x \<in> set acc then acc else acc @ [x]) xs []"

definition cosineSimilarity :: "string \<Rightarrow> string \<Rightarrow> nat \<Rightarrow> real" where
  "cosineSimilarity s1 s2 n =
     (let s1Norm = normalizeText s1; s2Norm = normalizeText s2 in
      if s1Norm = s2Norm then 1.0
      else if length s1Norm = 0 \<or> length s2Norm = 0 then 0.0
      else
        let ngrams1 = getNGrams s1Norm n;
            ngrams2 = getNGrams s2Norm n;
            allKeys = newSet (map fst ngrams1 @ map fst ngrams2);
            dotProduct = (\<Sum>key \<leftarrow> allKeys. mapGet ngrams1 key * mapGet ngrams2 key);
            norm1 = (\<Sum>key \<leftarrow> allKeys. mapGet ngrams1 key * mapGet ngrams1 key);
            norm2 = (\<Sum>key \<leftarrow> allKeys. mapGet ngrams2 key * mapGet ngrams2 key)
        in if norm1 = 0 \<or> norm2 = 0 then 0.0
           else real dotProduct / (sqrt (real norm1) * sqrt (real norm2)))"

subsection \<open>isBrandSimilar and isProductSimilar\<close>

definition isBrandSimilar :: "string \<Rightarrow> string \<Rightarrow> real \<Rightarrow> bool option" where
  "isBrandSimilar brand1 brand2 threshold =
     (case jaroWinklerSimilarity brand1 brand2 of
        None \<Rightarrow> None
      | Some similarity \<Rightarrow> Some (similarity \<ge> threshold))"

definition isProductSimilar :: "string \<Rightarrow> string \<Rightarrow> real \<Rightarrow> bool option" where
  "isProductSimilar product1 product2 threshold =
     (case jaroWinklerSimilarity product1 product2 of
        None \<Rightarrow> None
      | Some jaroSim \<Rightarrow>
          let cosineSim = cosineSimilarity product1 product2 2;
              maxSim = max jaroSim cosineSim
          in Some (maxSim \<ge> threshold))"


section \<open>The decision engine (matching/decision)\<close>

datatype RecallSource = fda | fsis | cpsc

datatype RecallStatus = ongoing | terminated | unknown

record Expiration =
  start :: "string option"
  end' :: "string option"

record Links =
  official :: string
  manufacturer :: "string option"

record RecallRecord =
  id' :: string
  source :: RecallSource
  brand :: "string list"
  product :: string
  upcs :: "string list"
  lotRegex :: "string list option"
  expiration :: "Expiration option"
  hazard :: string
  actions :: "string list"
  jurisdictions :: "string list option"
  links :: Links
  published :: string
  updated :: "string option"
  status :: "RecallStatus option"

text \<open>
  The test of one record UPC inside \<open>findUPCMatches\<close>, against the normalized UPC of
  the scan.
\<close>

definition upcMatchesRecordUPC :: "UPCDetails \<Rightarrow> string \<Rightarrow> bool" where
  "upcMatchesRecordUPC normalizedUPC recordUPC =
     (let normalizedRecordUPC = normalizeUPC recordUPC in
      isValid normalizedRecordUPC \<and>
      (UPCDetails.normalized normalizedUPC = UPCDetails.normalized normalizedRecordUPC \<or>
       areUPCEquivalent (UPCDetails.normalized normalizedUPC)
         (UPCDetails.normalized normalizedRecordUPC)))"

definition findUPCMatches :: "string option \<Rightarrow> RecallRecord list \<Rightarrow> RecallRecord list" where
  "findUPCMatches upc records =
     (case upc of
        None \<Rightarrow> []
      | Some u \<Rightarrow>
          if u = [] then []
          else
            let normalizedUPC = normalizeUPC u in
            if \<not> isValid normalizedUPC then []
            else filter (\<lambda>record. list_ex (upcMatchesRecordUPC normalizedUPC) (upcs record))
                   records)"

text \<open>
  \<open>xs.some(f)\<close> for a callback that may not return: the elements are tried in order
  up to the first that gives true.
\<close>

fun some :: "('a \<Rightarrow> bool option) \<Rightarrow> 'a list \<Rightarrow> bool option" where
  "some f [] = Some False"
| "some f (x # xs) =
     (case f x of
        None \<Rightarrow> None
      | Some b \<Rightarrow> if b then Some True else some f xs)"

text \<open>
  The loop of \<open>findBrandProductMatches\<close> over the records, \<open>matches\<close> being the
  array built so far. The parameters \<open>brand\<close> and \<open>product\<close> carry a prime, to
  tell them from the fields of a record.
\<close>

fun brandProductLoop ::
  "string option \<Rightarrow> string option \<Rightarrow> RecallRecord list \<Rightarrow> RecallRecord list \<Rightarrow>
   RecallRecord list option" where
  "brandProductLoop brand' product' [] matches = Some matches"
| "brandProductLoop brand' product' (record # records) matches =
     (case (case brand' of
              None \<Rightarrow> Some True
            | Some b \<Rightarrow>
                if b = [] then Some True
                else some (\<lambda>recordBrand. isBrandSimilar b recordBrand 0.8)
                       (RecallRecord.brand record)) of
        None \<Rightarrow> None
      | Some brandMatch \<Rightarrow>
          (case (case product' of
                   None \<Rightarrow> Some True
                 | Some p \<Rightarrow>
                     if p = [] then Some True
                     else isProductSimilar p (RecallRecord.product record) 0.7) of
             None \<Rightarrow> None
           | Some productMatch \<Rightarrow>
               brandProductLoop brand' product' records
                 (if brandMatch \<and> productMatch then matches @ [record] else matches)))"

definition findBrandProductMatches ::
  "string option \<Rightarrow> string option \<Rightarrow> RecallRecord list \<Rightarrow> RecallRecord list option" where
  "findBrandProductMatches brand' product' records =
     (if \<not> truthy brand' \<and> \<not> truthy product' then Some []
      else brandProductLoop brand' product' records [])"

text \<open>
  The filter of the UPC tier,
  \<open>!record.lotRegex || !lot || record.lotRegex.some(pattern => matchesLotPattern(lot, pattern))\<close>.
  An array is true in a condition, the empty one too.
\<close>

definition isRedMatch :: "regExpConstructor \<Rightarrow> string option \<Rightarrow> RecallRecord \<Rightarrow> bool" where
  "isRedMatch newRegExp lot record =
     (case lotRegex record of
        None \<Rightarrow> True
      | Some patterns \<Rightarrow>
          (case lot of
             None \<Rightarrow> True
           | Some l \<Rightarrow> l = [] \<or> list_ex (matchesLotPattern newRegExp l) patterns))"

text \<open>The filter \<open>record.lotRegex || record.expiration\<close> of the second tier.\<close>

definition isConstrained :: "RecallRecord \<Rightarrow> bool" where
  "isConstrained record = (lotRegex record \<noteq> None \<or> expiration record \<noteq> None)"

text \<open>
  The filter that re-checks a constrained record in the second tier: the lot patterns
  when the record has some and the scan has a lot code, else the expiration window when
  the record has one and the scan has an expiry date, else false.
\<close>

definition isLotMatch ::
  "regExpConstructor \<Rightarrow> dateParser \<Rightarrow> string option \<Rightarrow> string option \<Rightarrow> RecallRecord \<Rightarrow> bool" where
  "isLotMatch newRegExp parseDate lot expiry record =
     (let byExpiration =
            (case (expiration record, expiry) of
               (Some window, Some e) \<Rightarrow>
                 e \<noteq> [] \<and> isDateInRange parseDate e (start window) (end' window)
             | _ \<Rightarrow> False)
      in (case (lotRegex record, lot) of
            (Some patterns, Some l) \<Rightarrow>
              if l \<noteq> [] then list_ex (matchesLotPattern newRegExp l) patterns
              else byExpiration
          | _ \<Rightarrow> byExpiration))"

datatype Decision = GREEN | YELLOW | RED

record MatchResult =
  decision :: Decision
  reasons :: "string list"
  matches :: "RecallRecord list"
  confidence :: "real option"

text \<open>
  \<open>MatchResultSchema\<close>: of its four fields only \<open>confidence\<close> has a constraint that
  the types do not give, \<open>z.number().min(0).max(1).optional()\<close>.
\<close>

definition MatchResultSchema :: "MatchResult \<Rightarrow> bool" where
  "MatchResultSchema res =
     (case confidence res of None \<Rightarrow> True | Some c \<Rightarrow> 0 \<le> c \<and> c \<le> 1)"

record DecisionInput =
  upc :: "string option"
  brand :: "string option"
  product :: "string option"
  lot :: "string option"
  expiry :: "string option"
  sourceHits :: "RecallRecord list"

text \<open>
  \<open>decide(input)\<close>, with the two host functions as parameters. The result is \<open>None\<close>
  when the call does not return.
\<close>

definition decide :: "regExpConstructor \<Rightarrow> dateParser \<Rightarrow> DecisionInput \<Rightarrow> MatchResult option" where
  "decide newRegExp parseDate input =
     (if length (sourceHits input) = 0 then
        Some \<lparr>decision = GREEN, reasons = [''No recalls found for this product''],
              matches = [], confidence = None\<rparr>
      else
        let upcMatches = findUPCMatches (upc input) (sourceHits input) in
        if length upcMatches > 0 then
          let redMatches = filter (isRedMatch newRegExp (lot input)) upcMatches in
          if length redMatches > 0 then
            Some \<lparr>decision = RED,
                  reasons = [''Exact UPC match found'',
                             if truthy (lot input) then ''Lot code matches recall criteria''
                             else ''No lot code restrictions in recall''],
                  matches = redMatches, confidence = Some 0.95\<rparr>
          else
            Some \<lparr>decision = YELLOW,
                  reasons = [''Exact UPC match found'',
                             ''Your lot code does not match the recalled lots'',
                             ''Please verify your lot code matches the recall notice''],
                  matches = upcMatches, confidence = Some 0.8\<rparr>
        else
          (case findBrandProductMatches (brand input) (product input) (sourceHits input) of
             None \<Rightarrow> None
           | Some brandProductMatches \<Rightarrow>
               if length brandProductMatches > 0 then
                 let constrainedMatches = filter isConstrained brandProductMatches in
                 if length constrainedMatches > 0 then
                   let lotMatches =
                         filter (isLotMatch newRegExp parseDate (lot input) (expiry input))
                           constrainedMatches
                   in if length lotMatches > 0 then
                        Some \<lparr>decision = RED,
                              reasons = [''Brand and product match found'',
                                         ''Lot/expiry date matches recall criteria''],
                              matches = lotMatches, confidence = Some 0.85\<rparr>
                      else
                        Some \<lparr>decision = YELLOW,
                              reasons = [''Brand and product match found'',
                                ''Your lot/expiry date does not match the recalled range'',
                                ''Please verify your lot/expiry date matches the recall notice''],
                              matches = constrainedMatches, confidence = Some 0.7\<rparr>
                 else
                   Some \<lparr>decision = YELLOW,
                         reasons = [''Brand and product match found'',
                                    ''No specific lot/date restrictions in recall'',
                                    ''Please verify this matches your product''],
                         matches = brandProductMatches, confidence = Some 0.6\<rparr>
               else
                 Some \<lparr>decision = GREEN, reasons = [''No recalls found for this product''],
                       matches = [], confidence = None\<rparr>))"

subsection \<open>The checksum of the UPC/EAN standard\<close>

text \<open>
  The check digit as the specification words it, for comparison with
  \<open>validateChecksum\<close>: a modulo-10 weighted sum over all digits but the last, the
  weights alternating 3, 1 from index 0 for EAN-8 and for UPC-A, and 1, 3 from index 0
  for EAN-13 (in each case the digit next to the check digit has weight 3).
\<close>

definition standardWeight :: "nat \<Rightarrow> nat \<Rightarrow> nat" where
  "standardWeight len i =
     (if len = 13 then (if i mod 2 = 0 then 1 else 3)
      else (if i mod 2 = 0 then 3 else 1))"

definition digitValues :: "string \<Rightarrow> nat list" where
  "digitValues s = map (\<lambda>c. code c - 48) s"

definition standardCheckDigit :: "nat list \<Rightarrow> nat \<Rightarrow> nat" where
  "standardCheckDigit ds len =
     (10 - (\<Sum>i \<leftarrow> [0 ..< len - 1]. ds ! i * standardWeight len i) mod 10) mod 10"

definition standardValid :: "string \<Rightarrow> bool" where
  "standardValid s =
     (list_all isDigit s \<and> length s \<in> {8, 12, 13} \<and>
      last (digitValues s) = standardCheckDigit (digitValues s) (length s))"

section \<open>Sample host functions\<close>

text \<open>
  Two concrete values for the parameters of the model, for the examples below.
  \<open>isoDateParse\<close> reads the date-only form \<open>YYYY-MM-DD\<close> of the ECMAScript date
  format, for a day that exists in the calendar, as the number of milliseconds between
  1970-01-01 and that day; it gives \<open>None\<close> on every other text.
\<close>

definition isLeapYear :: "int \<Rightarrow> bool" where
  "isLeapYear y = (y mod 4 = 0 \<and> (y mod 100 \<noteq> 0 \<or> y mod 400 = 0))"

definition daysInMonth :: "int \<Rightarrow> int \<Rightarrow> int" where
  "daysInMonth y m =
     (if m = 2 then (if isLeapYear y then 29 else 28)
      else if m \<in> {4, 6, 9, 11} then 30 else 31)"

definition daysFromCivil :: "int \<Rightarrow> int \<Rightarrow> int \<Rightarrow> int" where
  "daysFromCivil y m d =
     (let y' = (if m \<le> 2 then y - 1 else y);
          era = y' div 400;
          yoe = y' - era * 400;
          doy = (153 * ((m + 9) mod 12) + 2) div 5 + d - 1;
          doe = yoe * 365 + yoe div 4 - yoe div 100 + doy
      in era * 146097 + doe - 719468)"

definition isoDateParse :: dateParser where
  "isoDateParse s =
     (let ys = take 4 s; ms = take 2 (drop 5 s); ds = drop 8 s;
          y = int (decimal ys); m = int (decimal ms); d = int (decimal ds)
      in if length s = 10 \<and> elemAt s 4 = Some (CHR ''-'') \<and> elemAt s 7 = Some (CHR ''-'') \<and>
            list_all isDigit (ys @ ms @ ds) \<and>
            1 \<le> m \<and> m \<le> 12 \<and> 1 \<le> d \<and> d \<le> daysInMonth y m
         then Some (daysFromCivil y m d * 86400000)
         else None)"

text \<open>
  \<open>anchoredLiteral\<close> knows the patterns \<open>^w$\<close> for a word \<open>w\<close> of ASCII letters and
  digits, with their meaning under the \<open>i\<close> flag (the lot code is \<open>w\<close> up to the case
  of the letters), and rejects every other pattern.
\<close>

definition anchoredLiteral :: regExpConstructor where
  "anchoredLiteral pattern =
     (let w = butlast (tl pattern) in
      if 2 \<le> length pattern \<and> hd pattern = CHR ''^'' \<and> last pattern = CHR ''$'' \<and>
         list_all isAlnumI w
      then Some (\<lambda>lot. length lot = length w \<and> list_all2 (\<lambda>c l. letterI l c) lot w)
      else None)"

section \<open>Sample records\<close>

text \<open>
  A recall record without lot patterns and without an expiration window, the same
  record with a lot pattern, the same with a lot pattern and a window, and the same with
  a lot pattern that is no regular expression (its group is not closed).
\<close>

definition sampleRecord :: RecallRecord where
  "sampleRecord =
     \<lparr>id' = ''F-1234-2024'', source = fda, RecallRecord.brand = [''acme foods''],
      RecallRecord.product = ''peanut butter crackers'', upcs = [''012345678905''],
      lotRegex = None, expiration = None, hazard = ''undeclared peanuts'',
      actions = [''do not eat''], jurisdictions = None,
      links = \<lparr>official = ''https://www.fda.gov'', manufacturer = None\<rparr>,
      published = ''2024-03-01'', updated = None, status = Some ongoing\<rparr>"

definition lotRecord :: RecallRecord where
  "lotRecord = sampleRecord\<lparr>lotRegex := Some [''^L2201$'']\<rparr>"

definition windowRecord :: RecallRecord where
  "windowRecord =
     lotRecord\<lparr>expiration := Some \<lparr>start = Some ''2024-01-01'', end' = Some ''2024-12-31''\<rparr>\<rparr>"

definition malformedRecord :: RecallRecord where
  "malformedRecord = sampleRecord\<lparr>lotRegex := Some [''(L2201'']\<rparr>"

section \<open>The UPC checksum and equivalence\<close>

lemma isDigit_simps [simp]:
  "isDigit (CHR ''0'')" "isDigit (CHR ''1'')" "isDigit (CHR ''2'')" "isDigit (CHR ''3'')"
  "isDigit (CHR ''4'')" "isDigit (CHR ''5'')" "isDigit (CHR ''6'')" "isDigit (CHR ''7'')"
  "isDigit (CHR ''8'')" "isDigit (CHR ''9'')"
  by (simp_all add: isDigit_def code_def)

text \<open>
  C2. The claim: on 8-, 12- and 13-digit input \<open>isValid\<close> holds exactly when the last
  digit is the standard check digit, so every code valid by the standard is accepted.
  The code departs from it for the lengths 12 and 8. The UPC-A code 036000291452 is valid
  by the standard (weighted sum 58, check digit 2), and \<open>normalizeUPC\<close> classifies it
  as UPC-A with \<open>isValid\<close> false, because \<open>validateChecksum\<close> gives index 0 the
  weight 1 for length 12 (sum 62, check digit 8). The EAN-8 code 73513537 is valid by the
  standard (sum 63, check digit 7) and is rejected, because every index has weight 3 for
  length 8 (sum 81, check digit 9).
\<close>

theorem normalizeUPC_rejects_standard_upc_a:
  "standardValid ''036000291452'' \<and>
   type (normalizeUPC ''036000291452'') = UPC_A \<and>
   \<not> isValid (normalizeUPC ''036000291452'') \<and>
   standardValid ''73513537'' \<and>
   type (normalizeUPC ''73513537'') = EAN_8 \<and>
   \<not> isValid (normalizeUPC ''73513537'')"
  by (simp add: standardValid_def standardCheckDigit_def standardWeight_def digitValues_def
      normalizeUPC_def validateChecksum_def addDigit_def parseIntChar_def charAt_def
      weight_def padStart_def code_def upt_rec)

text \<open>
  C5. The claim: two valid identifiers with the same digit string are equivalent, two
  identical valid EAN-8 identifiers included. The code has no EAN-8 case:
  00000000 is a valid EAN-8 code for \<open>normalizeUPC\<close> (and by the standard), and
  \<open>areUPCEquivalent\<close> answers false on the pair of it with itself.
\<close>

theorem areUPCEquivalent_identical_ean8_false:
  "type (normalizeUPC ''00000000'') = EAN_8 \<and>
   isValid (normalizeUPC ''00000000'') \<and>
   standardValid ''00000000'' \<and>
   \<not> areUPCEquivalent ''00000000'' ''00000000''"
  by (simp add: areUPCEquivalent_def standardValid_def standardCheckDigit_def
      standardWeight_def digitValues_def
      normalizeUPC_def validateChecksum_def addDigit_def parseIntChar_def charAt_def
      weight_def padStart_def code_def upt_rec)

section \<open>Parsing expiry dates\<close>

text \<open>
  C4. The claim: every calendar date written \<open>YYYY-MM-DD\<close> is parsed, and the
  normalized field is that date. The code does not do this: on 2024-01-15 only the
  third pattern matches, its groups (year, month, day) are read as (month, day, year),
  the month number 2024 fails the range check, and the result is \<open>null\<close>, whatever
  the host's date parser.
\<close>

theorem parseExpiryDate_iso_date_none:
  "parseExpiryDate parseDate ''2024-01-15'' = Inr None"
  by code_simp

lemma expiryLoop_confidence:
  "expiryLoop parseDate text cleaned ps = Inr (Some r) \<Longrightarrow> ParsedExpiry.confidence r = 0.9"
  by (induction ps) (auto simp: Let_def split: option.splits if_splits)

text \<open>
  C9, as claimed: a successful \<open>parseExpiryDate\<close> has confidence exactly 1.0. It
  fails: 01/15/2024 is parsed, with confidence 0.9.
\<close>

theorem parseExpiryDate_confidence_counterexample:
  "parseExpiryDate isoDateParse ''01/15/2024'' =
     Inr (Some \<lparr>ParsedExpiry.raw = ''01/15/2024'', normalized = ''2024-01-15'',
                 confidence = 0.9\<rparr>) \<and>
   (0.9 :: real) \<noteq> 1.0"
  by code_simp

text \<open>
  C9, amended: whenever \<open>parseExpiryDate\<close> succeeds, the confidence of its result is
  exactly 0.9.
\<close>

theorem parseExpiryDate_confidence:
  "parseExpiryDate parseDate text = Inr (Some r) \<Longrightarrow> ParsedExpiry.confidence r = 0.9"
  unfolding parseExpiryDate_def by (rule expiryLoop_confidence)

text \<open>C9, at the labelled date of a leap day, EXP 02/29/24.\<close>

theorem parseExpiryDate_confidence_witness:
  "parseExpiryDate isoDateParse ''EXP 02/29/24'' =
     Inr (Some \<lparr>ParsedExpiry.raw = ''EXP 02/29/24'', normalized = ''2024-02-29'',
                 confidence = 0.9\<rparr>) \<and>
   ParsedExpiry.confidence \<lparr>ParsedExpiry.raw = ''EXP 02/29/24'', normalized = ''2024-02-29'',
                 confidence = 0.9\<rparr> = 0.9"
proof -
  have parsed: "parseExpiryDate isoDateParse ''EXP 02/29/24'' =
     Inr (Some \<lparr>ParsedExpiry.raw = ''EXP 02/29/24'', normalized = ''2024-02-29'',
                 confidence = 0.9\<rparr>)"
    by code_simp
  from parsed parseExpiryDate_confidence [OF parsed] show ?thesis
    by blast
qed

section \<open>Text similarity\<close>

text \<open>
  C6, as claimed: when at least one of the two texts normalizes to the empty string,
  \<open>jaroWinklerSimilarity\<close> is 0.0. It fails when both do: \<open>the\<close> and \<open>a\<close> are stop
  words, both normalize to the empty string, and the similarity is 1.0.
\<close>

theorem jaroWinklerSimilarity_empty_counterexample:
  "normalizeText ''the'' = [] \<and> normalizeText ''a'' = [] \<and>
   jaroWinklerSimilarity ''the'' ''a'' = Some 1.0 \<and>
   jaroWinklerSimilarity ''the'' ''a'' \<noteq> Some 0.0"
  by code_simp

text \<open>
  C6, amended: when at least one of the two texts normalizes to the empty string,
  \<open>jaroWinklerSimilarity\<close> returns 0.0 if the two normalized texts differ (exactly
  one is empty), and 1.0 if they are equal (both are empty).
\<close>

theorem jaroWinklerSimilarity_empty:
  "normalizeText s1 = [] \<or> normalizeText s2 = [] \<Longrightarrow>
   jaroWinklerSimilarity s1 s2 =
     Some (if normalizeText s1 = normalizeText s2 then 1.0 else 0.0)"
  by (auto simp: jaroWinklerSimilarity_def Let_def)

text \<open>C6, at a stop word against a text that keeps a letter.\<close>

theorem jaroWinklerSimilarity_empty_witness:
  "normalizeText ''The'' = [] \<and> normalizeText ''x-ray'' = ''x ray'' \<and>
   jaroWinklerSimilarity ''The'' ''x-ray'' = Some 0.0"
proof -
  have n1: "normalizeText ''The'' = []" by code_simp
  have n2: "normalizeText ''x-ray'' = ''x ray''" by code_simp
  from n1 have "normalizeText ''The'' = [] \<or> normalizeText ''x-ray'' = []" by simp
  from jaroWinklerSimilarity_empty [OF this] n1 n2 show ?thesis
    by simp
qed

section \<open>The decision engine\<close>

text \<open>
  C7. A scan in which the five fields \<open>upc\<close>, \<open>brand\<close>, \<open>product\<close>, \<open>lot\<close> and
  \<open>expiry\<close> are absent: for every list of candidate records, empty or not, \<open>decide\<close>
  returns, and its result is GREEN with no matches and no confidence.
\<close>

theorem decide_empty_scan:
  "decide newRegExp parseDate
     \<lparr>upc = None, brand = None, product = None, lot = None, expiry = None,
      sourceHits = hits\<rparr> =
   Some \<lparr>decision = GREEN, reasons = [''No recalls found for this product''],
         matches = [], confidence = None\<rparr>"
  by (simp add: decide_def findUPCMatches_def findBrandProductMatches_def truthy_def)

lemma findUPCMatches_Some:
  "isValid (normalizeUPC u) \<Longrightarrow>
   findUPCMatches (Some u) records =
     filter (\<lambda>record. list_ex (upcMatchesRecordUPC (normalizeUPC u)) (upcs record)) records"
  by (auto simp: findUPCMatches_def Let_def normalizeUPC_def)


lemma isRedMatch_iff:
  "isRedMatch newRegExp lot' r =
     (lotRegex r = None \<or> \<not> truthy lot' \<or>
      (\<exists>l ps. lot' = Some l \<and> lotRegex r = Some ps \<and>
         (\<exists>p \<in> set ps. matchesLotPattern newRegExp l p)))"
  by (auto simp: isRedMatch_def truthy_def list_ex_iff split: option.splits)

subsection \<open>Facts about the sample records\<close>

lemma sample_upc_valid: "isValid (normalizeUPC ''012345678905'')"
  by code_simp

lemma sample_upc_matches:
  "upcMatchesRecordUPC (normalizeUPC ''012345678905'') ''012345678905''"
  by code_simp

lemma sample_fields [simp]:
  "upcs sampleRecord = [''012345678905'']" "upcs lotRecord = [''012345678905'']"
  "upcs windowRecord = [''012345678905'']"
  "lotRegex sampleRecord = None" "lotRegex lotRecord = Some [''^L2201$'']"
  "lotRegex windowRecord = Some [''^L2201$'']"
  "expiration sampleRecord = None" "expiration lotRecord = None"
  "expiration windowRecord = Some \<lparr>start = Some ''2024-01-01'', end' = Some ''2024-12-31''\<rparr>"
  "RecallRecord.brand sampleRecord = [''acme foods'']"
  "RecallRecord.brand lotRecord = [''acme foods'']"
  "RecallRecord.brand windowRecord = [''acme foods'']"
  "RecallRecord.product sampleRecord = ''peanut butter crackers''"
  "RecallRecord.product lotRecord = ''peanut butter crackers''"
  "RecallRecord.product windowRecord = ''peanut butter crackers''"
  by (simp_all add: sampleRecord_def lotRecord_def windowRecord_def)

lemma sample_findUPCMatches:
  "upcs r = [''012345678905''] \<Longrightarrow> findUPCMatches (Some ''012345678905'') [r] = [r]"
  by (simp add: findUPCMatches_Some sample_upc_valid sample_upc_matches)

lemma sample_lot_fails: "\<not> matchesLotPattern anchoredLiteral ''L2205'' ''^L2201$''"
  by code_simp




subsection \<open>The UPC tier\<close>

text \<open>
  C1, as claimed: with a UPC match, \<open>decide\<close> is YELLOW with confidence 0.8 unless some
  UPC-matched record has no lot restriction or one that the lot code of the scan
  satisfies. It fails for a scan without lot code: the only candidate matches by UPC and
  restricts the lot, the scan has no lot code to satisfy the restriction, and \<open>decide\<close>
  is RED with confidence 0.95.
\<close>

theorem decide_upc_tier_counterexample:
  "isValid (normalizeUPC ''012345678905'') \<and>
   findUPCMatches (Some ''012345678905'') [lotRecord] = [lotRecord] \<and>
   lotRegex lotRecord = Some [''^L2201$''] \<and>
   decide anchoredLiteral isoDateParse
     \<lparr>upc = Some ''012345678905'', brand = None, product = None, lot = None,
      expiry = None, sourceHits = [lotRecord]\<rparr> =
   Some \<lparr>decision = RED,
         reasons = [''Exact UPC match found'', ''No lot code restrictions in recall''],
         matches = [lotRecord], confidence = Some 0.95\<rparr>"
  by (simp add: decide_def sample_findUPCMatches sample_upc_valid isRedMatch_def truthy_def)

text \<open>
  C1, amended: for a scan whose UPC normalizes to a valid identifier and a candidate
  list in which some record has a UPC that matches it, \<open>decide\<close> returns RED with
  confidence 0.95 if some UPC-matched record has no lot restriction, or the scan carries
  no lot code (none, or the empty string), or the lot code of the scan matches one of the
  record's lot patterns; otherwise it returns YELLOW with confidence 0.8.
\<close>

theorem decide_upc_tier:
  assumes "upc input = Some u" and "isValid (normalizeUPC u)"
    and "\<exists>r \<in> set (sourceHits input). \<exists>e \<in> set (upcs r).
           upcMatchesRecordUPC (normalizeUPC u) e"
  shows "\<exists>res. decide newRegExp parseDate input = Some res \<and>
     (if \<exists>r \<in> set (sourceHits input).
           (\<exists>e \<in> set (upcs r). upcMatchesRecordUPC (normalizeUPC u) e) \<and>
           (lotRegex r = None \<or> \<not> truthy (lot input) \<or>
            (\<exists>l ps. lot input = Some l \<and> lotRegex r = Some ps \<and>
               (\<exists>p \<in> set ps. matchesLotPattern newRegExp l p)))
      then decision res = RED \<and> confidence res = Some 0.95
      else decision res = YELLOW \<and> confidence res = Some 0.8)"
proof -
  let ?M = "findUPCMatches (upc input) (sourceHits input)"
  have M: "?M = filter (\<lambda>record. list_ex (upcMatchesRecordUPC (normalizeUPC u)) (upcs record))
     (sourceHits input)"
    using assms(1,2) by (simp add: findUPCMatches_Some)
  have ne: "?M \<noteq> []"
    using assms(3) unfolding M by (auto simp: filter_empty_conv list_ex_iff)
  have hits: "sourceHits input \<noteq> []"
    using assms(3) by auto
  have red: "(filter (isRedMatch newRegExp (lot input)) ?M \<noteq> []) =
     (\<exists>r \<in> set (sourceHits input).
           (\<exists>e \<in> set (upcs r). upcMatchesRecordUPC (normalizeUPC u) e) \<and>
           (lotRegex r = None \<or> \<not> truthy (lot input) \<or>
            (\<exists>l ps. lot input = Some l \<and> lotRegex r = Some ps \<and>
               (\<exists>p \<in> set ps. matchesLotPattern newRegExp l p))))"
    unfolding M filter_empty_conv isRedMatch_iff by (simp add: list_ex_iff) blast
  show ?thesis
  proof (cases "filter (isRedMatch newRegExp (lot input)) ?M = []")
    case True
    with ne hits red show ?thesis by (simp add: decide_def Let_def)
  next
    case False
    with ne hits red show ?thesis by (simp add: decide_def Let_def)
  qed
qed

text \<open>
  C1, at the second scenario of the specification: the record restricts the lot to
  L2201, the scan has the lot code L2205, and the decision is YELLOW with confidence 0.8.
\<close>

theorem decide_upc_tier_witness:
  "\<exists>res. decide anchoredLiteral isoDateParse
       \<lparr>upc = Some ''012345678905'', brand = None, product = None, lot = Some ''L2205'',
        expiry = None, sourceHits = [lotRecord]\<rparr> = Some res \<and>
     decision res = YELLOW \<and> confidence res = Some 0.8"
proof -
  let ?input = "\<lparr>upc = Some ''012345678905'', brand = None, product = None,
     lot = Some ''L2205'', expiry = None, sourceHits = [lotRecord]\<rparr>"
  have h1: "upc ?input = Some ''012345678905''" by simp
  have h3: "\<exists>r \<in> set (sourceHits ?input). \<exists>e \<in> set (upcs r).
           upcMatchesRecordUPC (normalizeUPC ''012345678905'') e"
    by (simp add: sample_upc_matches)
  from decide_upc_tier [OF h1 sample_upc_valid h3, of anchoredLiteral isoDateParse]
  show ?thesis
    by (simp add: truthy_def sample_lot_fails sample_upc_matches)
qed

subsection \<open>Tier priority\<close>



subsection \<open>The constraint re-check of the brand and product tier\<close>




section \<open>No exception escapes\<close>

subsection \<open>parseExpiryDate reads three groups\<close>

lemma matchItem_captures:
  "(r, caps') \<in> set (matchItem i (s, caps)) \<Longrightarrow>
   length caps' = length caps + captureCount [i]"
  by (cases i) auto

lemma matchItems_captures:
  "(r, caps') \<in> set (matchItems p st) \<Longrightarrow>
   length caps' = length (snd st) + captureCount p"
proof (induction p arbitrary: st)
  case Nil
  then show ?case by auto
next
  case (Cons i p)
  obtain s caps where st: "st = (s, caps)" by (cases st)
  from Cons.prems obtain st' where st': "st' \<in> set (matchItem i (s, caps))"
    and r: "(r, caps') \<in> set (matchItems p st')"
    by (auto simp: st)
  obtain s1 caps1 where s1: "st' = (s1, caps1)" by (cases st')
  from matchItem_captures [of s1 caps1 i s caps] st' s1
  have "length caps1 = length caps + captureCount [i]" by simp
  moreover from Cons.IH [OF r] s1 have "length caps' = length caps1 + captureCount p" by simp
  ultimately show ?case by (cases i) (simp_all add: st)
qed

lemma match_captures:
  assumes "match s p = Some groups"
  shows "length groups = captureCount p"
proof -
  from assms obtain st where f: "find (\<lambda>st. fst st = []) (matchItems p (s, [])) = Some st"
    and g: "groups = snd st"
    by (auto simp: match_def)
  from f have "st \<in> set (matchItems p (s, []))"
    by (auto simp: find_Some_iff)
  with matchItems_captures [of "fst st" "snd st" p "(s, [])"] g show ?thesis by simp
qed

lemma EXPIRY_PATTERNS_captures: "\<forall>p \<in> set EXPIRY_PATTERNS. captureCount p = 3"
  by (simp add: EXPIRY_PATTERNS_def labelledDate_def literalI_def)

lemma expiryLoop_returns:
  "\<forall>p \<in> set ps. captureCount p = 3 \<Longrightarrow>
   \<exists>r. expiryLoop parseDate text cleaned ps = Inr r"
proof (induction ps)
  case Nil
  then show ?case by simp
next
  case (Cons p ps)
  then obtain r where r: "expiryLoop parseDate text cleaned ps = Inr r" by auto
  show ?case
  proof (cases "match cleaned p")
    case None
    with r show ?thesis by simp
  next
    case (Some groups)
    with Cons.prems match_captures have "length groups = 3" by fastforce
    with Some r show ?thesis
      by (auto simp: elemAt_def Let_def)
  qed
qed

lemma parseExpiryDate_returns: "\<exists>r. parseExpiryDate parseDate text = Inr r"
  unfolding parseExpiryDate_def by (rule expiryLoop_returns [OF EXPIRY_PATTERNS_captures])

lemma expiryLoop_valid:
  "expiryLoop parseDate text cleaned ps = Inr (Some r) \<Longrightarrow>
   parseDate (ParsedExpiry.normalized r) \<noteq> None"
  by (induction ps) (auto simp: Let_def split: option.splits if_splits)


lemma lotLoop_none:
  "lotLoop text cleaned ps = None \<longleftrightarrow> (\<forall>p \<in> set ps. match cleaned p = None)"
  by (induction ps) (auto simp: Let_def split: option.splits)

subsection \<open>The loops of jaroWinklerSimilarity end\<close>

lemma find_SomeD: "find P xs = Some x \<Longrightarrow> P x \<and> x \<in> set xs"
  by (induction xs) (auto split: if_splits)

lemma count_split:
  assumes "i < length m"
  shows "length (filter P m) =
     length (filter P (take i m)) + (if P (m ! i) then 1 else 0) +
     length (filter P (drop (Suc i) m))"
proof -
  have "length (filter P (take i m @ m ! i # drop (Suc i) m)) =
     length (filter P (take i m)) + (if P (m ! i) then 1 else 0) +
     length (filter P (drop (Suc i) m))"
    by simp
  then show ?thesis
    unfolding id_take_nth_drop [OF assms, symmetric] .
qed

lemma count_update:
  assumes "i < length m"
  shows "length (filter P (m[i := x])) =
     length (filter P (take i m)) + (if P x then 1 else 0) +
     length (filter P (drop (Suc i) m))"
  by (simp add: upd_conv_take_nth_drop [OF assms])

lemma count_update_le:
  "length (filter (\<lambda>b. b) (m[i := True])) \<le> Suc (length (filter (\<lambda>b. b) m))"
proof (cases "i < length m")
  case True
  from count_split [OF True, of "\<lambda>b. b"] count_update [OF True, of "\<lambda>b. b" True]
  show ?thesis by (simp split: if_splits)
next
  case False
  then have "m[i := True] = m" by (intro list_update_beyond) simp
  then show ?thesis by (simp only: le_SucI order_refl)
qed

lemma count_update_new:
  assumes "j < length m" and "\<not> m ! j"
  shows "length (filter (\<lambda>b. b) (m[j := True])) = Suc (length (filter (\<lambda>b. b) m))"
  using count_split [OF assms(1), of "\<lambda>b. b"] count_update [OF assms(1), of "\<lambda>b. b" True]
    assms(2)
  by simp

lemma matchStep_invariant:
  assumes "matchStep s1Norm s2Norm matchWindow i (m1, m2, n) = (m1', m2', n')"
    and "length m2 = length s2Norm"
    and "length (filter (\<lambda>b. b) m1) \<le> length (filter (\<lambda>b. b) m2)"
  shows "length m1' = length m1 \<and> length m2' = length m2 \<and>
         length (filter (\<lambda>b. b) m1') \<le> length (filter (\<lambda>b. b) m2')"
proof (cases "findMatch s1Norm s2Norm m2 i (nat (max 0 (int i - matchWindow)))
                (nat (min (int i + matchWindow + 1) (int (length s2Norm))))")
  case None
  with assms show ?thesis by (simp add: matchStep_def Let_def)
next
  case (Some j)
  then have "j < length s2Norm" and "\<not> m2 ! j"
    by (auto simp: findMatch_def dest!: find_SomeD)
  with assms(2) have "length (filter (\<lambda>b. b) (m2[j := True])) = Suc (length (filter (\<lambda>b. b) m2))"
    by (simp add: count_update_new)
  moreover have "length (filter (\<lambda>b. b) (m1[i := True])) \<le> Suc (length (filter (\<lambda>b. b) m1))"
    by (rule count_update_le)
  moreover from Some assms(1) have "m1' = m1[i := True]" "m2' = m2[j := True]"
    by (simp_all add: matchStep_def Let_def)
  ultimately show ?thesis using assms(3) by simp
qed

lemma matchLoop_invariant:
  assumes "fold (matchStep s1Norm s2Norm matchWindow) is (m1, m2, n) = (m1', m2', n')"
    and "length m2 = length s2Norm"
    and "length (filter (\<lambda>b. b) m1) \<le> length (filter (\<lambda>b. b) m2)"
  shows "length m1' = length m1 \<and> length m2' = length m2 \<and>
         length (filter (\<lambda>b. b) m1') \<le> length (filter (\<lambda>b. b) m2')"
  using assms
proof (induction "is" arbitrary: m1 m2 n)
  case Nil
  then show ?case by simp
next
  case (Cons i "is")
  obtain u1 u2 c where st: "matchStep s1Norm s2Norm matchWindow i (m1, m2, n) = (u1, u2, c)"
    by (cases "matchStep s1Norm s2Norm matchWindow i (m1, m2, n)")
  from matchStep_invariant [OF st Cons.prems(2,3)]
  have inv: "length u1 = length m1" "length u2 = length m2"
    "length (filter (\<lambda>b. b) u1) \<le> length (filter (\<lambda>b. b) u2)" by simp_all
  from Cons.prems(1) st have "fold (matchStep s1Norm s2Norm matchWindow) is (u1, u2, c) =
     (m1', m2', n')" by simp
  moreover from inv Cons.prems(2) have "length u2 = length s2Norm" by simp
  ultimately have "length m1' = length u1 \<and> length m2' = length u2 \<and>
         length (filter (\<lambda>b. b) m1') \<le> length (filter (\<lambda>b. b) m2')"
    using inv(3) by (rule Cons.IH)
  with inv show ?case by simp
qed

lemma skipUnmatched_finds:
  "0 < length (filter (\<lambda>b. b) (drop k m)) \<Longrightarrow>
   \<exists>k'. skipUnmatched m k = Some k' \<and> k' < length m \<and>
        Suc (length (filter (\<lambda>b. b) (drop (Suc k') m))) = length (filter (\<lambda>b. b) (drop k m))"
proof (induction m k rule: skipUnmatched.induct)
  case (1 m k)
  show ?case
  proof (cases "k < length m")
    case False
    with "1.prems" show ?thesis by simp
  next
    case True
    then have d: "drop k m = m ! k # drop (Suc k) m"
      by (simp add: Cons_nth_drop_Suc)
    show ?thesis
    proof (cases "m ! k")
      case True
      with \<open>k < length m\<close> d show ?thesis
        by (simp add: skipUnmatched.simps [of m k])
    next
      case False
      with d "1.prems" have "0 < length (filter (\<lambda>b. b) (drop (Suc k) m))" by simp
      from "1.IH" [OF \<open>k < length m\<close> False this] False d \<open>k < length m\<close>
      show ?thesis by (simp add: skipUnmatched.simps [of m k])
    qed
  qed
qed

lemma countTranspositions_returns:
  "length (filter (\<lambda>i. m1 ! i) is) \<le> length (filter (\<lambda>b. b) (drop k m2)) \<Longrightarrow>
   \<exists>t'. countTranspositions s1Norm s2Norm m1 m2 is k t = Some t'"
proof (induction "is" arbitrary: k t)
  case Nil
  then show ?case by simp
next
  case (Cons i "is")
  show ?case
  proof (cases "m1 ! i")
    case False
    with Cons show ?thesis by simp
  next
    case True
    with Cons.prems have "Suc (length (filter (\<lambda>i. m1 ! i) is)) \<le>
        length (filter (\<lambda>b. b) (drop k m2))" by simp
    then have pos: "0 < length (filter (\<lambda>b. b) (drop k m2))" by linarith
    from skipUnmatched_finds [OF pos] obtain k' where
      k': "skipUnmatched m2 k = Some k'"
      "Suc (length (filter (\<lambda>b. b) (drop (Suc k') m2))) = length (filter (\<lambda>b. b) (drop k m2))"
      by blast
    from True Cons.prems have "Suc (length (filter (\<lambda>i. m1 ! i) is)) \<le>
        length (filter (\<lambda>b. b) (drop k m2))" by simp
    with k'(2) have
      "length (filter (\<lambda>i. m1 ! i) is) \<le> length (filter (\<lambda>b. b) (drop (Suc k') m2))"
      by linarith
    from Cons.IH [OF this] obtain t' where "countTranspositions s1Norm s2Norm m1 m2 is (Suc k')
       (if s1Norm ! i \<noteq> s2Norm ! k' then t + 1 else t) = Some t'"
      by blast
    with True k'(1) show ?thesis by simp
  qed
qed


lemma count_indices:
  "length (filter (\<lambda>i. m ! i) [0 ..< length m]) = length (filter (\<lambda>b. b) m)"
proof -
  have "filter (\<lambda>b. b) (map (\<lambda>i. m ! i) [0 ..< length m]) = filter (\<lambda>b. b) m"
    by (simp add: map_nth)
  then have "length (filter (\<lambda>b. b) m) =
     length (filter (\<lambda>b. b) (map (\<lambda>i. m ! i) [0 ..< length m]))"
    by simp
  also have "\<dots> = length (filter (\<lambda>i. m ! i) [0 ..< length m])"
    unfolding filter_map by (simp add: comp_def)
  finally show ?thesis by simp
qed

lemma jaroWinklerSimilarity_returns: "\<exists>v. jaroWinklerSimilarity s1 s2 = Some v"
proof -
  define a where "a = normalizeText s1"
  define b where "b = normalizeText s2"
  define w where "w = int (max (length a) (length b) div 2) - 1"
  obtain m1 m2 n where f: "fold (matchStep a b w) [0 ..< length a]
      (replicate (length a) False, replicate (length b) False, 0) = (m1, m2, n)"
    by (cases "fold (matchStep a b w) [0 ..< length a]
      (replicate (length a) False, replicate (length b) False, 0)")
  have "length (filter (\<lambda>b. b) (replicate (length a) False)) \<le>
        length (filter (\<lambda>b. b) (replicate (length b) False))" by simp
  from matchLoop_invariant [OF f _ this]
  have inv: "length m1 = length a"
    "length (filter (\<lambda>b. b) m1) \<le> length (filter (\<lambda>b. b) m2)" by simp_all
  from inv count_indices [of m1]
  have "length (filter (\<lambda>i. m1 ! i) [0 ..< length a]) \<le>
        length (filter (\<lambda>b. b) (drop 0 m2))"
    by simp
  from countTranspositions_returns [OF this] obtain t where
    "countTranspositions a b m1 m2 [0 ..< length a] 0 0 = Some t" by blast
  with f show ?thesis
    by (simp add: jaroWinklerSimilarity_def Let_def a_def [symmetric] b_def [symmetric]
        w_def [symmetric])
qed

subsection \<open>decide returns\<close>

lemma isBrandSimilar_returns: "\<exists>b. isBrandSimilar brand1 brand2 threshold = Some b"
  using jaroWinklerSimilarity_returns [of brand1 brand2]
  by (auto simp: isBrandSimilar_def)

lemma isProductSimilar_returns: "\<exists>b. isProductSimilar product1 product2 threshold = Some b"
  using jaroWinklerSimilarity_returns [of product1 product2]
  by (auto simp: isProductSimilar_def Let_def)

lemma some_returns: "(\<And>x. \<exists>b. f x = Some b) \<Longrightarrow> \<exists>b. some f xs = Some b"
proof (induction xs)
  case Nil
  show ?case by auto
next
  case (Cons x xs)
  from Cons.prems obtain b where "f x = Some b" by blast
  with Cons show ?case by auto
qed

lemma brandProductLoop_returns:
  "\<exists>ms. brandProductLoop brand' product' rs acc = Some ms"
proof (induction rs arbitrary: acc)
  case Nil
  then show ?case by simp
next
  case (Cons r rs)
  have "\<exists>bm. (case brand' of
              None \<Rightarrow> Some True
            | Some b \<Rightarrow>
                if b = [] then Some True
                else some (\<lambda>recordBrand. isBrandSimilar b recordBrand 0.8)
                       (RecallRecord.brand r)) = Some bm"
    using some_returns [OF isBrandSimilar_returns]
    by (auto split: option.splits)
  then obtain bm where bm: "(case brand' of
              None \<Rightarrow> Some True
            | Some b \<Rightarrow>
                if b = [] then Some True
                else some (\<lambda>recordBrand. isBrandSimilar b recordBrand 0.8)
                       (RecallRecord.brand r)) = Some bm" by blast
  have "\<exists>pm. (case product' of
                   None \<Rightarrow> Some True
                 | Some p \<Rightarrow>
                     if p = [] then Some True
                     else isProductSimilar p (RecallRecord.product r) 0.7) = Some pm"
    using isProductSimilar_returns by (auto split: option.splits)
  then obtain pm where pm: "(case product' of
                   None \<Rightarrow> Some True
                 | Some p \<Rightarrow>
                     if p = [] then Some True
                     else isProductSimilar p (RecallRecord.product r) 0.7) = Some pm"
    by blast
  from Cons.IH [of "if bm \<and> pm then acc @ [r] else acc"] bm pm
  show ?case by (simp del: some.simps)
qed

lemma findBrandProductMatches_returns:
  "\<exists>ms. findBrandProductMatches brand' product' records = Some ms"
  using brandProductLoop_returns by (simp add: findBrandProductMatches_def)

lemma decide_returns:
  "\<exists>res. decide newRegExp parseDate input = Some res \<and> MatchResultSchema res"
proof -
  obtain bp where "findBrandProductMatches (brand input) (product input) (sourceHits input)
     = Some bp"
    using findBrandProductMatches_returns by blast
  then show ?thesis
    by (simp add: decide_def Let_def MatchResultSchema_def)
qed

text \<open>
  C8. For every input and both host functions, nothing is raised and every call returns:
  \<open>decide\<close> returns a result that satisfies \<open>MatchResultSchema\<close>;
  \<open>parseExpiryDate\<close> returns, without the \<open>TypeError\<close> of a missing group, and a date
  that the host rejects is never its result; a malformed pattern makes the \<open>try\<close> block
  of \<open>matchesLotPattern\<close> raise and the function answer false; \<open>isDateInRange\<close> is
  false when the target date, or a bound that is present, is no date; \<open>parseLotCode\<close>
  is \<open>null\<close> exactly when no pattern matches. (\<open>parseLotCode\<close>, \<open>isDateInRange\<close>
  and \<open>matchesLotPattern\<close> have no operation that could raise outside the \<open>try\<close>
  block, so their models are plain functions.)
\<close>

theorem core_never_raises:
  "(\<exists>res. decide newRegExp parseDate input = Some res \<and> MatchResultSchema res) \<and>
   (\<exists>r. parseExpiryDate parseDate text = Inr r) \<and>
   (\<forall>r. parseExpiryDate parseDate text = Inr (Some r) \<longrightarrow>
        parseDate (ParsedExpiry.normalized r) \<noteq> None) \<and>
   (newRegExp pattern = None \<longrightarrow>
      regexTest newRegExp l pattern = Inl SyntaxError \<and>
      \<not> matchesLotPattern newRegExp l pattern) \<and>
   (parseDate d = None \<longrightarrow> \<not> isDateInRange parseDate d s e) \<and>
   (\<forall>b. (s = Some b \<or> e = Some b) \<and> b \<noteq> [] \<and> parseDate b = None \<longrightarrow>
        \<not> isDateInRange parseDate d s e) \<and>
   (parseLotCode text = None \<longleftrightarrow>
      (\<forall>p \<in> set LOT_PATTERNS. match (toUpperCase (trim text)) p = None))"
proof (intro conjI)
  obtain bp where
    "findBrandProductMatches (brand input) (product input) (sourceHits input) = Some bp"
    using findBrandProductMatches_returns by blast
  then show "\<exists>res. decide newRegExp parseDate input = Some res \<and> MatchResultSchema res"
    by (simp add: decide_def Let_def MatchResultSchema_def)
next
  show "\<exists>r. parseExpiryDate parseDate text = Inr r"
    unfolding parseExpiryDate_def by (rule expiryLoop_returns [OF EXPIRY_PATTERNS_captures])
next
  show "\<forall>r. parseExpiryDate parseDate text = Inr (Some r) \<longrightarrow>
        parseDate (ParsedExpiry.normalized r) \<noteq> None"
    unfolding parseExpiryDate_def using expiryLoop_valid by blast
next
  show "newRegExp pattern = None \<longrightarrow>
      regexTest newRegExp l pattern = Inl SyntaxError \<and>
      \<not> matchesLotPattern newRegExp l pattern"
    by (simp add: matchesLotPattern_def regexTest_def)
next
  show "parseDate d = None \<longrightarrow> \<not> isDateInRange parseDate d s e"
    by (simp add: isDateInRange_def)
next
  show "\<forall>b. (s = Some b \<or> e = Some b) \<and> b \<noteq> [] \<and> parseDate b = None \<longrightarrow>
        \<not> isDateInRange parseDate d s e"
    by (auto simp: isDateInRange_def startFails_def endFails_def split: option.splits)
next
  show "parseLotCode text = None \<longleftrightarrow>
      (\<forall>p \<in> set LOT_PATTERNS. match (toUpperCase (trim text)) p = None)"
    unfolding parseLotCode_def by (rule lotLoop_none)
qed

text \<open>
  C8, at a record whose lot pattern is malformed, at the impossible date 2023-02-29 as
  target and as bound, at a labelled date that is parsed and at one that is impossible.
\<close>

theorem core_never_raises_witness:
  "anchoredLiteral ''(L2201'' = None \<and>
   \<not> matchesLotPattern anchoredLiteral ''L2201'' ''(L2201'' \<and>
   isoDateParse ''2023-02-29'' = None \<and>
   \<not> isDateInRange isoDateParse ''2023-02-29'' None (Some ''2024-12-31'') \<and>
   \<not> isDateInRange isoDateParse ''2024-06-01'' None (Some ''2023-02-29'') \<and>
   parseExpiryDate isoDateParse ''EXP 02/29/23'' = Inr None \<and>
   parseExpiryDate isoDateParse ''EXP 02/28/23'' =
     Inr (Some \<lparr>ParsedExpiry.raw = ''EXP 02/28/23'', normalized = ''2023-02-28'',
                 confidence = 0.9\<rparr>) \<and>
   isoDateParse ''2023-02-28'' \<noteq> None \<and>
   parseLotCode ''EXP 02/29/23'' = None \<and>
   (\<exists>res. decide anchoredLiteral isoDateParse
      \<lparr>upc = Some ''012345678905'', brand = None, product = None, lot = Some ''L2201'',
       expiry = Some ''2023-02-29'', sourceHits = [malformedRecord]\<rparr> = Some res \<and>
      MatchResultSchema res)"
proof -
  let ?input = "\<lparr>upc = Some ''012345678905'', brand = None, product = None,
     lot = Some ''L2201'', expiry = Some ''2023-02-29'', sourceHits = [malformedRecord]\<rparr>"
  have malformed: "anchoredLiteral ''(L2201'' = None" by code_simp
  have impossible: "isoDateParse ''2023-02-29'' = None" by code_simp
  have rejected: "parseExpiryDate isoDateParse ''EXP 02/29/23'' = Inr None" by code_simp
  have parsed: "parseExpiryDate isoDateParse ''EXP 02/28/23'' =
     Inr (Some \<lparr>ParsedExpiry.raw = ''EXP 02/28/23'', normalized = ''2023-02-28'',
                 confidence = 0.9\<rparr>)" by code_simp
  have nolot: "\<forall>p \<in> set LOT_PATTERNS. match (toUpperCase (trim ''EXP 02/29/23'')) p = None"
    by code_simp
  note a = core_never_raises [of anchoredLiteral isoDateParse ?input "''EXP 02/29/23''"
      "''(L2201''" "''L2201''" "''2023-02-29''" None "Some ''2024-12-31''"]
  note b = core_never_raises [of anchoredLiteral isoDateParse ?input "''EXP 02/28/23''"
      "''(L2201''" "''L2201''" "''2024-06-01''" None "Some ''2023-02-29''"]
  from a malformed impossible nolot
  have 1: "\<not> matchesLotPattern anchoredLiteral ''L2201'' ''(L2201''"
    and 2: "\<not> isDateInRange isoDateParse ''2023-02-29'' None (Some ''2024-12-31'')"
    and 3: "parseLotCode ''EXP 02/29/23'' = None"
    and 4: "\<exists>res. decide anchoredLiteral isoDateParse ?input = Some res \<and>
        MatchResultSchema res"
    by blast+
  from b impossible
  have 5: "\<not> isDateInRange isoDateParse ''2024-06-01'' None (Some ''2023-02-29'')"
    by blast
  from b parsed have 6: "isoDateParse ''2023-02-28'' \<noteq> None"
    by auto
  from malformed impossible rejected parsed 1 2 3 4 5 6 show ?thesis
    by simp
qed

subsection \<open>The remaining concrete instances\<close>

text \<open>
  C2, at the UPC-A code 036000291452: its check digit by the standard is its last digit,
  2, and \<open>normalizeUPC\<close> does not accept it.
\<close>

theorem normalizeUPC_rejects_standard_upc_a_witness:
  "standardCheckDigit (digitValues ''036000291452'') 12 = 2 \<and>
   \<not> isValid (normalizeUPC ''036000291452'')"
proof -
  have "standardCheckDigit (digitValues ''036000291452'') 12 = 2"
    by (simp add: standardCheckDigit_def standardWeight_def digitValues_def code_def upt_rec)
  with normalizeUPC_rejects_standard_upc_a show ?thesis by simp
qed

text \<open>
  C5, at the EAN-8 code 00000000: both arguments are valid identifiers and
  \<open>areUPCEquivalent\<close> is false.
\<close>

theorem areUPCEquivalent_identical_ean8_false_witness:
  "UPCDetails.normalized (normalizeUPC ''00000000'') = ''00000000'' \<and>
   isValid (normalizeUPC ''00000000'') \<and>
   \<not> areUPCEquivalent ''00000000'' ''00000000''"
proof -
  have "UPCDetails.normalized (normalizeUPC ''00000000'') = ''00000000''"
    by code_simp
  with areUPCEquivalent_identical_ean8_false show ?thesis by simp
qed

text \<open>
  C4, with the sample date parser: it accepts 2024-01-15, and \<open>parseExpiryDate\<close> is
  \<open>null\<close> all the same.
\<close>

theorem parseExpiryDate_iso_date_none_witness:
  "isoDateParse ''2024-01-15'' \<noteq> None \<and>
   parseExpiryDate isoDateParse ''2024-01-15'' = Inr None"
proof -
  have "isoDateParse ''2024-01-15'' \<noteq> None" by code_simp
  with parseExpiryDate_iso_date_none [of isoDateParse] show ?thesis by simp
qed

text \<open>C7, at the empty scan against the three sample records.\<close>

theorem decide_empty_scan_witness:
  "decide anchoredLiteral isoDateParse
     \<lparr>upc = None, brand = None, product = None, lot = None, expiry = None,
      sourceHits = [sampleRecord, lotRecord, windowRecord]\<rparr> =
   Some \<lparr>decision = GREEN, reasons = [''No recalls found for this product''],
         matches = [], confidence = None\<rparr>"
  by (rule decide_empty_scan)

end
